theory Spec2Isabelle
  imports Complex_Main
begin

section \<open>JavaScript values\<close>

text \<open>
  The helper and the two model classes receive untyped JavaScript values: request
  bodies, query-string parameters and ids. The primitive values are modelled by a
  datatype. \<open>JNum\<close> carries an integer and stands for the double of that integer
  (salaries, employee counts, ids: safe integers, for which \<open>String\<close> prints the decimal
  numeral); \<open>NaN\<close>, the infinities and fractions are outside the model. A string is a list
  of code units below 256, one \<open>char\<close> each. Of the objects only those are modelled
  that a property read on an object literal can return without the literal defining
  them: the built-in functions of \<open>Object.prototype\<close>, each given by its name
  (\<open>JFunction\<close>), and \<open>Object.prototype\<close> itself (\<open>JObjectPrototype\<close>).
\<close>

datatype jsval =
  JUndefined | JNull | JBool bool | JNum int | JStr string
  | JFunction string | JObjectPrototype

text \<open>What \<open>if (v)\<close>, \<open>!v\<close>, \<open>v ? a : b\<close>, \<open>||\<close> and \<open>&&\<close> test; every object is truthy.\<close>

fun truthy :: "jsval \<Rightarrow> bool" where
  "truthy JUndefined = False"
| "truthy JNull = False"
| "truthy (JBool b) = b"
| "truthy (JNum n) = (n \<noteq> 0)"
| "truthy (JStr s) = (s \<noteq> [])"
| "truthy (JFunction f) = True"
| "truthy JObjectPrototype = True"

text \<open>\<open>a || b\<close> is \<open>a\<close> when \<open>a\<close> is truthy and \<open>b\<close> otherwise.\<close>

definition js_or :: "jsval \<Rightarrow> jsval \<Rightarrow> jsval" where
  "js_or a b = (if truthy a then a else b)"

text \<open>The decimal numeral of a natural number, as \<open>String(n)\<close> prints it.\<close>

function string_of_nat :: "nat \<Rightarrow> string" where
  "string_of_nat n =
     (if n < 10 then [''0123456789'' ! n]
      else string_of_nat (n div 10) @ [''0123456789'' ! (n mod 10)])"
  by pat_completeness auto
termination
  by (relation "measure id") auto

declare string_of_nat.simps [simp del]

text \<open>
  The conversion a template literal \<open>`${v}`\<close> and \<open>"$" + n\<close> apply to a value. A
  built-in function prints as the engine prints native code, and \<open>Object.prototype\<close>
  as any plain object.
\<close>

fun to_string :: "jsval \<Rightarrow> string" where
  "to_string JUndefined = ''undefined''"
| "to_string JNull = ''null''"
| "to_string (JBool b) = (if b then ''true'' else ''false'')"
| "to_string (JNum n) =
     (if n < 0 then ''-'' @ string_of_nat (nat (- n)) else string_of_nat (nat n))"
| "to_string (JStr s) = s"
| "to_string (JFunction f) = ''function '' @ f @ ''() { [native code] }''"
| "to_string JObjectPrototype = ''[object Object]''"

text \<open>
  An object literal is given by its own properties; what it does not define it
  inherits from \<open>Object.prototype\<close>, whose properties are these twelve: eleven
  functions, and the accessor \<open>__proto__\<close>, which on an object literal reads as
  \<open>Object.prototype\<close>.
\<close>

definition Object_prototype :: "string \<rightharpoonup> jsval" where
  "Object_prototype = map_of
     [(''constructor'', JFunction ''Object''),
      (''__defineGetter__'', JFunction ''__defineGetter__''),
      (''__defineSetter__'', JFunction ''__defineSetter__''),
      (''hasOwnProperty'', JFunction ''hasOwnProperty''),
      (''__lookupGetter__'', JFunction ''__lookupGetter__''),
      (''__lookupSetter__'', JFunction ''__lookupSetter__''),
      (''isPrototypeOf'', JFunction ''isPrototypeOf''),
      (''propertyIsEnumerable'', JFunction ''propertyIsEnumerable''),
      (''toString'', JFunction ''toString''),
      (''valueOf'', JFunction ''valueOf''),
      (''__proto__'', JObjectPrototype),
      (''toLocaleString'', JFunction ''toLocaleString'')]"

text \<open>
  A property read \<open>obj[key]\<close> on an object literal given as the map of its own
  properties: the own property if there is one, else the inherited one, else
  \<open>undefined\<close>.
\<close>

definition get_prop :: "(string \<rightharpoonup> jsval) \<Rightarrow> string \<Rightarrow> jsval" where
  "get_prop obj key =
     (case obj key of
        Some v \<Rightarrow> v
      | None \<Rightarrow> (case Object_prototype key of Some v \<Rightarrow> v | None \<Rightarrow> JUndefined))"

text \<open>
  The order in which \<open>Object.keys\<close> and \<open>Object.values\<close> enumerate the own properties
  of an object, given as the list of its properties, key and value, in the order of
  their creation (keys distinct): first the keys that are array indices, in ascending
  numeric order, then all other keys in the order of creation. An array index is the
  decimal numeral, without sign or leading zero, of a number up to 4294967294.
\<close>

definition is_digit :: "char \<Rightarrow> bool" where
  "is_digit c = (48 \<le> (of_char c :: nat) \<and> (of_char c :: nat) \<le> 57)"

definition digit_val :: "char \<Rightarrow> nat" where
  "digit_val c = of_char c - 48"

definition array_index :: "string \<Rightarrow> nat option" where
  "array_index s =
     (if s \<noteq> [] \<and> list_all is_digit s \<and> (s = ''0'' \<or> hd s \<noteq> CHR ''0'') then
        (let n = foldl (\<lambda>acc c. 10 * acc + digit_val c) 0 s
         in if n \<le> 4294967294 then Some n else None)
      else None)"

definition Object_entries :: "(string \<times> jsval) list \<Rightarrow> (string \<times> jsval) list" where
  "Object_entries obj =
     map snd (sort_key fst
       (List.map_filter (\<lambda>e. map_option (\<lambda>n. (n, e)) (array_index (fst e))) obj))
     @ filter (\<lambda>e. array_index (fst e) = None) obj"

text \<open>\<open>Array.prototype.join\<close> on an array of strings.\<close>

fun join :: "string \<Rightarrow> string list \<Rightarrow> string" where
  "join sep [] = []"
| "join sep [x] = x"
| "join sep (x # y # ys) = x @ sep @ join sep (y # ys)"

section \<open>Errors\<close>

text \<open>The two classes of \<open>expressError\<close> that the code throws, with their message.\<close>

datatype error = BadRequestError string | NotFoundError string

section \<open>helpers/sql: sqlForPartialUpdate\<close>

text \<open>
  \<open>dataToUpdate\<close> is the object given by its properties in the order of their
  creation; \<open>Object.keys\<close> and \<open>Object.values\<close> enumerate it as \<open>Object_entries\<close> says.
  \<open>jsToSql\<close> is the translation object, an object literal given by its own properties
  and read with \<open>jsToSql[colName]\<close>. The function returns the object
  \<open>{ setCols, values }\<close> or throws.
\<close>

record partial_update =
  setCols :: string
  "values" :: "jsval list"

definition sqlForPartialUpdate ::
  "(string \<times> jsval) list \<Rightarrow> (string \<rightharpoonup> jsval) \<Rightarrow> error + partial_update" where
  "sqlForPartialUpdate dataToUpdate jsToSql =
     (let keys = map fst (Object_entries dataToUpdate) in
      if length keys = 0 then Inl (BadRequestError ''No data'')
      else
        let cols = map (\<lambda>(idx, colName).
                     ''\"'' @ to_string (js_or (get_prop jsToSql colName) (JStr colName))
                       @ ''\"=$'' @ string_of_nat (idx + 1))
                   (enumerate 0 keys)
        in Inr \<lparr> setCols = join '', '' cols,
                 values = map snd (Object_entries dataToUpdate) \<rparr>)"

section \<open>The relational operator\<close>

text \<open>
  \<open>a > b\<close>. Both operands are first made primitive: an object becomes the string it
  prints as. Two strings are then compared code unit by code unit (a proper prefix is
  the smaller). Anything else is converted to a number and the numbers are compared;
  the comparison is false when either is \<open>NaN\<close>. A number is an infinity or finite,
  \<open>NaN\<close> is \<open>None\<close>. The number a string converts to is the engine's reading of
  numeric literals (decimal with fraction and exponent, radix prefixes, \<open>Infinity\<close>,
  rounding to a double); it is not redone here but taken as the parameter
  \<open>stringToNumber\<close>.
\<close>

datatype number = NegInfinity | Finite real | PosInfinity

fun number_lt :: "number \<Rightarrow> number \<Rightarrow> bool" where
  "number_lt NegInfinity NegInfinity = False"
| "number_lt NegInfinity (Finite y) = True"
| "number_lt NegInfinity PosInfinity = True"
| "number_lt (Finite x) NegInfinity = False"
| "number_lt (Finite x) (Finite y) = (x < y)"
| "number_lt (Finite x) PosInfinity = True"
| "number_lt PosInfinity y = False"

fun str_lt :: "string \<Rightarrow> string \<Rightarrow> bool" where
  "str_lt [] [] = False"
| "str_lt [] (y # ys) = True"
| "str_lt (x # xs) [] = False"
| "str_lt (x # xs) (y # ys) =
     ((of_char x :: nat) < of_char y \<or> (x = y \<and> str_lt xs ys))"

fun to_primitive :: "jsval \<Rightarrow> jsval" where
  "to_primitive (JFunction f) = JStr (to_string (JFunction f))"
| "to_primitive JObjectPrototype = JStr (to_string JObjectPrototype)"
| "to_primitive v = v"

fun to_number :: "(string \<Rightarrow> number option) \<Rightarrow> jsval \<Rightarrow> number option" where
  "to_number stringToNumber JUndefined = None"
| "to_number stringToNumber JNull = Some (Finite 0)"
| "to_number stringToNumber (JBool b) = Some (Finite (if b then 1 else 0))"
| "to_number stringToNumber (JNum n) = Some (Finite (of_int n))"
| "to_number stringToNumber (JStr s) = stringToNumber s"
| "to_number stringToNumber (JFunction f) = stringToNumber (to_string (JFunction f))"
| "to_number stringToNumber JObjectPrototype = stringToNumber (to_string JObjectPrototype)"

fun js_gt_primitive :: "(string \<Rightarrow> number option) \<Rightarrow> jsval \<Rightarrow> jsval \<Rightarrow> bool" where
  "js_gt_primitive stringToNumber (JStr a) (JStr b) = str_lt b a"
| "js_gt_primitive stringToNumber a b =
     (case (to_number stringToNumber a, to_number stringToNumber b) of
        (Some x, Some y) \<Rightarrow> number_lt y x
      | _ \<Rightarrow> False)"

definition js_gt :: "(string \<Rightarrow> number option) \<Rightarrow> jsval \<Rightarrow> jsval \<Rightarrow> bool" where
  "js_gt stringToNumber a b =
     js_gt_primitive stringToNumber (to_primitive a) (to_primitive b)"

section \<open>The database connection\<close>

text \<open>
  \<open>db.query(sql, values)\<close> sends one statement with its bind values and resolves to a
  result whose \<open>rows\<close> the code reads. The executor behind it (the database and its
  pool) is not part of the repository: it is the parameter \<open>exec\<close>, which maps a
  statement, its bind values and the stored data to the rows and the new stored data.
  The connection pairs the stored data with the statements sent so far, oldest first,
  so that what a method sends, and in which order, can be stated. Rows are objects,
  hence truthy; \<open>rows[0]\<close> on an empty result is \<open>undefined\<close>, here \<open>None\<close>.
\<close>

type_synonym statement = "string \<times> jsval list"

type_synonym ('s, 'r) executor = "string \<Rightarrow> jsval list \<Rightarrow> 's \<Rightarrow> 'r list \<times> 's"

record 's db =
  store :: 's
  sent :: "statement list"

definition db_query ::
  "('s, 'r) executor \<Rightarrow> string \<Rightarrow> jsval list \<Rightarrow> 's db \<Rightarrow> 'r list \<times> 's db" where
  "db_query exec sql vals d =
     (let (rows, s) = exec sql vals (store d)
      in (rows, \<lparr> store = s, sent = sent d @ [(sql, vals)] \<rparr>))"

definition first_row :: "'r list \<Rightarrow> 'r option" where
  "first_row rows = (case rows of [] \<Rightarrow> None | r # _ \<Rightarrow> Some r)"

section \<open>models/job: class Job\<close>

text \<open>
  \<open>Job.findByCriteria({ title, minSalary, hasEquity })\<close>. The statement and its bind
  values are built first, by appending to \<open>query\<close> and pushing to \<open>values\<close>; that part
  is \<open>Job_findByCriteria_build\<close>, and \<open>Job_findByCriteria\<close> sends what it built. A
  parameter the caller left out is \<open>undefined\<close>.
\<close>

definition Job_select :: string where
  "Job_select =
     ''\<newline>'' @
     ''    SELECT \<newline>'' @
     ''    id,\<newline>'' @
     ''    title, \<newline>'' @
     ''    salary, \<newline>'' @
     ''    equity, \<newline>'' @
     ''    company_handle AS \"companyHandle\"\<newline>'' @
     ''     FROM jobs''"

definition Job_findByCriteria_build :: "jsval \<Rightarrow> jsval \<Rightarrow> jsval \<Rightarrow> string \<times> jsval list" where
  "Job_findByCriteria_build title minSalary hasEquity =
     (let query = Job_select;
          values = [];
          (query, values) =
            (if truthy title then
               (query @ ''\<newline>'' @ ''        WHERE title ILIKE $1'',
                values @ [JStr (''%'' @ to_string title @ ''%'')])
             else (query, values));
          (query, values) =
            (if truthy minSalary then
               (query @ ''\<newline>'' @ ''        '' @
                  (if truthy title then ''AND'' else ''WHERE'') @
                  '' salary >= $'' @ string_of_nat (length values + 1),
                values @ [minSalary])
             else (query, values));
          query =
            (if hasEquity = JStr ''true'' \<or> hasEquity = JBool True then
               query @ ''\<newline>'' @ ''        '' @
                 (if truthy (js_or title minSalary) then ''AND'' else ''WHERE'') @
                 '' equity > 0''
             else if hasEquity = JStr ''false'' \<or> hasEquity = JBool False then
               query @ ''\<newline>'' @ ''        '' @
                 (if truthy (js_or title minSalary) then ''AND'' else ''WHERE'') @
                 '' equity = 0''
             else query);
          query = query @ ''\<newline>'' @ ''      ORDER BY title''
      in (query, values))"

definition Job_findByCriteria ::
  "('s, 'r) executor \<Rightarrow> jsval \<Rightarrow> jsval \<Rightarrow> jsval \<Rightarrow> 's db \<Rightarrow> (error + 'r list) \<times> 's db" where
  "Job_findByCriteria exec title minSalary hasEquity d =
     (let (query, values) = Job_findByCriteria_build title minSalary hasEquity;
          (rows, d) = db_query exec query values d
      in (Inr rows, d))"

text \<open>\<open>Job.get(id)\<close>.\<close>

definition Job_get_sql :: string where
  "Job_get_sql =
     ''SELECT \<newline>'' @
     ''          id,\<newline>'' @
     ''          title, \<newline>'' @
     ''          salary, \<newline>'' @
     ''          equity, \<newline>'' @
     ''          company_handle AS \"companyHandle\"\<newline>'' @
     ''           FROM jobs\<newline>'' @
     ''           WHERE id = $1''"

definition Job_get :: "('s, 'r) executor \<Rightarrow> jsval \<Rightarrow> 's db \<Rightarrow> (error + 'r) \<times> 's db" where
  "Job_get exec jobId d =
     (let (rows, d) = db_query exec Job_get_sql [jobId] d
      in case first_row rows of
           None \<Rightarrow> (Inl (NotFoundError (''No job with an id of '' @ to_string jobId)), d)
         | Some job \<Rightarrow> (Inr job, d))"

text \<open>
  \<open>Job.update(id, data)\<close>. A throw of \<open>sqlForPartialUpdate\<close> leaves the method before
  anything is sent.
\<close>

definition Job_update_sql :: "string \<Rightarrow> string \<Rightarrow> string" where
  "Job_update_sql cols handleVarIdx =
     ''UPDATE jobs \<newline>'' @
     ''                      SET '' @ cols @ '' \<newline>'' @
     ''                      WHERE id = '' @ handleVarIdx @ '' \<newline>'' @
     ''                      RETURNING id, \<newline>'' @
     ''                      title, \<newline>'' @
     ''                      salary, \<newline>'' @
     ''                      equity, \<newline>'' @
     ''                      company_handle AS \"companyHandle\"''"

definition Job_update ::
  "('s, 'r) executor \<Rightarrow> jsval \<Rightarrow> (string \<times> jsval) list \<Rightarrow> 's db \<Rightarrow> (error + 'r) \<times> 's db" where
  "Job_update exec jobId data d =
     (case sqlForPartialUpdate data (map_of [(''companyHandle'', JStr ''company_handle'')]) of
        Inl e \<Rightarrow> (Inl e, d)
      | Inr u \<Rightarrow>
          let handleVarIdx = ''$'' @ string_of_nat (length (values u) + 1);
              querySql = Job_update_sql (setCols u) handleVarIdx;
              (rows, d) = db_query exec querySql (values u @ [jobId]) d
          in (case first_row rows of
                None \<Rightarrow> (Inl (NotFoundError (''No job with id: '' @ to_string jobId)), d)
              | Some job \<Rightarrow> (Inr job, d)))"

text \<open>\<open>Job.remove(id)\<close>, which returns the deleted row's \<open>{ id }\<close>.\<close>

definition Job_remove_sql :: string where
  "Job_remove_sql =
     ''DELETE\<newline>'' @
     ''           FROM jobs\<newline>'' @
     ''           WHERE id = $1\<newline>'' @
     ''           RETURNING id''"

definition Job_remove :: "('s, 'r) executor \<Rightarrow> jsval \<Rightarrow> 's db \<Rightarrow> (error + 'r) \<times> 's db" where
  "Job_remove exec jobId d =
     (let (rows, d) = db_query exec Job_remove_sql [jobId] d
      in case first_row rows of
           None \<Rightarrow> (Inl (NotFoundError ''No job found''), d)
         | Some deletedId \<Rightarrow> (Inr deletedId, d))"

section \<open>models/company: class Company\<close>

text \<open>
  \<open>Company.create({ handle, name, description, numEmployees, logoUrl })\<close>. It returns
  \<open>result.rows[0]\<close> of the insert.
\<close>

definition Company_duplicateCheck_sql :: string where
  "Company_duplicateCheck_sql =
     ''SELECT handle\<newline>'' @
     ''           FROM companies\<newline>'' @
     ''           WHERE handle = $1''"

definition Company_insert_sql :: string where
  "Company_insert_sql =
     ''INSERT INTO companies\<newline>'' @
     ''           (handle, name, description, num_employees, logo_url)\<newline>'' @
     ''           VALUES ($1, $2, $3, $4, $5)\<newline>'' @
     ''           RETURNING handle, name, description, num_employees AS \"numEmployees\", logo_url AS \"logoUrl\"''"

definition Company_create ::
  "('s, 'r) executor \<Rightarrow> jsval \<Rightarrow> jsval \<Rightarrow> jsval \<Rightarrow> jsval \<Rightarrow> jsval \<Rightarrow> 's db
     \<Rightarrow> (error + 'r option) \<times> 's db" where
  "Company_create exec handle name description numEmployees logoUrl d =
     (let (duplicateCheck, d) = db_query exec Company_duplicateCheck_sql [handle] d
      in case first_row duplicateCheck of
           Some _ \<Rightarrow> (Inl (BadRequestError (''Duplicate company: '' @ to_string handle)), d)
         | None \<Rightarrow>
             let (rows, d) =
                   db_query exec Company_insert_sql
                     [handle, name, description, numEmployees, logoUrl] d
             in (Inr (first_row rows), d))"

text \<open>
  \<open>Company.findByCriteria({ name, minEmployees, maxEmployees })\<close>: the validation, then
  the statement built as for jobs (\<open>Company_findByCriteria_build\<close>) and sent. The
  validation compares with \<open>>\<close>, hence the parameter \<open>stringToNumber\<close>.
\<close>

definition Company_select :: string where
  "Company_select =
     ''\<newline>'' @
     ''      SELECT handle,\<newline>'' @
     ''             name,\<newline>'' @
     ''             description,\<newline>'' @
     ''             num_employees AS \"numEmployees\",\<newline>'' @
     ''             logo_url AS \"logoUrl\"\<newline>'' @
     ''      FROM companies''"

definition Company_findByCriteria_build :: "jsval \<Rightarrow> jsval \<Rightarrow> jsval \<Rightarrow> string \<times> jsval list" where
  "Company_findByCriteria_build name minEmployees maxEmployees =
     (let query = Company_select;
          values = [];
          (query, values) =
            (if truthy name then
               (query @ ''\<newline>'' @ ''        WHERE name ILIKE $1'',
                values @ [JStr (''%'' @ to_string name @ ''%'')])
             else (query, values));
          (query, values) =
            (if truthy minEmployees then
               (query @ ''\<newline>'' @ ''        '' @
                  (if truthy name then ''AND'' else ''WHERE'') @
                  '' num_employees >= $'' @ string_of_nat (length values + 1),
                values @ [minEmployees])
             else (query, values));
          (query, values) =
            (if truthy maxEmployees then
               (query @ ''\<newline>'' @ ''        '' @
                  (if truthy (js_or name minEmployees) then ''AND'' else ''WHERE'') @
                  '' num_employees <= $'' @ string_of_nat (length values + 1),
                values @ [maxEmployees])
             else (query, values));
          query = query @ ''\<newline>'' @ ''      ORDER BY name''
      in (query, values))"

definition Company_findByCriteria ::
  "(string \<Rightarrow> number option) \<Rightarrow> ('s, 'r) executor \<Rightarrow> jsval \<Rightarrow> jsval \<Rightarrow> jsval \<Rightarrow> 's db
     \<Rightarrow> (error + 'r list) \<times> 's db" where
  "Company_findByCriteria stringToNumber exec name minEmployees maxEmployees d =
     (if truthy minEmployees \<and> truthy maxEmployees \<and>
         js_gt stringToNumber minEmployees maxEmployees then
        (Inl (BadRequestError ''minEmployees cannot be greater than maxEmployees''), d)
      else
        let (query, values) = Company_findByCriteria_build name minEmployees maxEmployees;
            (rows, d) = db_query exec query values d
        in (Inr rows, d))"

text \<open>\<open>Company.get(handle)\<close>.\<close>

definition Company_get_sql :: string where
  "Company_get_sql =
     ''SELECT handle,\<newline>'' @
     ''                  name,\<newline>'' @
     ''                  description,\<newline>'' @
     ''                  num_employees AS \"numEmployees\",\<newline>'' @
     ''                  logo_url AS \"logoUrl\"\<newline>'' @
     ''           FROM companies\<newline>'' @
     ''           WHERE handle = $1''"

definition Company_get :: "('s, 'r) executor \<Rightarrow> jsval \<Rightarrow> 's db \<Rightarrow> (error + 'r) \<times> 's db" where
  "Company_get exec handle d =
     (let (rows, d) = db_query exec Company_get_sql [handle] d
      in case first_row rows of
           None \<Rightarrow> (Inl (NotFoundError (''No company: '' @ to_string handle)), d)
         | Some company \<Rightarrow> (Inr company, d))"

text \<open>\<open>Company.update(handle, data)\<close>.\<close>

definition Company_update_sql :: "string \<Rightarrow> string \<Rightarrow> string" where
  "Company_update_sql cols handleVarIdx =
     ''UPDATE companies \<newline>'' @
     ''                      SET '' @ cols @ '' \<newline>'' @
     ''                      WHERE handle = '' @ handleVarIdx @ '' \<newline>'' @
     ''                      RETURNING handle, \<newline>'' @
     ''                                name, \<newline>'' @
     ''                                description, \<newline>'' @
     ''                                num_employees AS \"numEmployees\", \<newline>'' @
     ''                                logo_url AS \"logoUrl\"''"

definition Company_update ::
  "('s, 'r) executor \<Rightarrow> jsval \<Rightarrow> (string \<times> jsval) list \<Rightarrow> 's db \<Rightarrow> (error + 'r) \<times> 's db" where
  "Company_update exec handle data d =
     (case sqlForPartialUpdate data
             (map_of [(''numEmployees'', JStr ''num_employees''),
                      (''logoUrl'', JStr ''logo_url'')]) of
        Inl e \<Rightarrow> (Inl e, d)
      | Inr u \<Rightarrow>
          let handleVarIdx = ''$'' @ string_of_nat (length (values u) + 1);
              querySql = Company_update_sql (setCols u) handleVarIdx;
              (rows, d) = db_query exec querySql (values u @ [handle]) d
          in (case first_row rows of
                None \<Rightarrow> (Inl (NotFoundError (''No company: '' @ to_string handle)), d)
              | Some company \<Rightarrow> (Inr company, d)))"

text \<open>\<open>Company.remove(handle)\<close>, which returns nothing.\<close>

definition Company_remove_sql :: string where
  "Company_remove_sql =
     ''DELETE\<newline>'' @
     ''           FROM companies\<newline>'' @
     ''           WHERE handle = $1\<newline>'' @
     ''           RETURNING handle''"

definition Company_remove :: "('s, 'r) executor \<Rightarrow> jsval \<Rightarrow> 's db \<Rightarrow> (error + unit) \<times> 's db" where
  "Company_remove exec handle d =
     (let (rows, d) = db_query exec Company_remove_sql [handle] d
      in case first_row rows of
           None \<Rightarrow> (Inl (NotFoundError (''No company: '' @ to_string handle)), d)
         | Some company \<Rightarrow> (Inr (), d))"

section \<open>What the specification says, as definitions\<close>

text \<open>
  The clause \<open>"col"=$i\<close> for a column name and a 1-based position, and the clauses of
  a whole update mapping under a naming of the columns.
\<close>

definition set_clause :: "string \<Rightarrow> nat \<Rightarrow> string" where
  "set_clause col i = ''\"'' @ col @ ''\"=$'' @ string_of_nat i"

definition set_clauses :: "(string \<Rightarrow> string) \<Rightarrow> (string \<times> jsval) list \<Rightarrow> string list" where
  "set_clauses col d = map (\<lambda>i. set_clause (col (fst (d ! i))) (i + 1)) [0..<length d]"

text \<open>
  The specification's translation: look the key up in the table and, if it is absent,
  use the key unchanged.
\<close>

definition translated :: "(string \<rightharpoonup> jsval) \<Rightarrow> string \<Rightarrow> string" where
  "translated jsToSql key = (case jsToSql key of None \<Rightarrow> key | Some v \<Rightarrow> to_string v)"

text \<open>
  The same with the key also kept when the table maps it to a falsy value.
\<close>

definition column_name :: "(string \<rightharpoonup> jsval) \<Rightarrow> string \<Rightarrow> string" where
  "column_name jsToSql key =
     (case jsToSql key of
        None \<Rightarrow> key
      | Some v \<Rightarrow> if truthy v then to_string v else key)"

text \<open>
  The \<open>$N\<close> placeholders of a statement, in the order they occur: each maximal run of
  decimal digits that directly follows a dollar sign, read as a number.
\<close>

datatype scan = Text | Dollar | Number nat

fun placeholders_from :: "scan \<Rightarrow> string \<Rightarrow> nat list" where
  "placeholders_from Text [] = []"
| "placeholders_from Dollar [] = []"
| "placeholders_from (Number n) [] = [n]"
| "placeholders_from Text (c # cs) =
     placeholders_from (if c = CHR ''$'' then Dollar else Text) cs"
| "placeholders_from Dollar (c # cs) =
     placeholders_from
       (if is_digit c then Number (digit_val c)
        else if c = CHR ''$'' then Dollar else Text) cs"
| "placeholders_from (Number n) (c # cs) =
     (if is_digit c then placeholders_from (Number (10 * n + digit_val c)) cs
      else n # placeholders_from (if c = CHR ''$'' then Dollar else Text) cs)"

definition placeholders :: "string \<Rightarrow> nat list" where
  "placeholders sql = placeholders_from Text sql"

text \<open>
  The filter part of a statement, from the conditions of the filters that are present,
  in their order: the first after \<open>WHERE\<close>, every later one after \<open>AND\<close>, each on a
  line of its own.
\<close>

fun where_and :: "string list \<Rightarrow> string" where
  "where_and [] = []"
| "where_and (c # cs) =
     ''\<newline>'' @ ''        WHERE '' @ c @
     concat (map (\<lambda>c. ''\<newline>'' @ ''        AND '' @ c) cs)"

text \<open>
  The filters of jobs in their declared order: the text filter on the title, the
  minimum salary, the equity flag. A filter is present when its value is truthy; the
  equity flag is present when it is \<open>true\<close>, \<open>false\<close> or one of the strings \<open>"true"\<close>,
  \<open>"false"\<close>. The bind values are those of the first two.
\<close>

definition Job_text_conditions :: "jsval \<Rightarrow> jsval \<Rightarrow> string list" where
  "Job_text_conditions title minSalary =
     (if truthy title then [''title ILIKE $1''] else []) @
     (if truthy minSalary then
        [''salary >= $'' @ string_of_nat (if truthy title then 2 else 1)]
      else [])"

definition Job_equity_conditions :: "jsval \<Rightarrow> string list" where
  "Job_equity_conditions hasEquity =
     (if hasEquity = JStr ''true'' \<or> hasEquity = JBool True then [''equity > 0'']
      else if hasEquity = JStr ''false'' \<or> hasEquity = JBool False then [''equity = 0'']
      else [])"

definition Job_conditions :: "jsval \<Rightarrow> jsval \<Rightarrow> jsval \<Rightarrow> string list" where
  "Job_conditions title minSalary hasEquity =
     Job_text_conditions title minSalary @ Job_equity_conditions hasEquity"

definition Job_binds :: "jsval \<Rightarrow> jsval \<Rightarrow> jsval list" where
  "Job_binds title minSalary =
     (if truthy title then [JStr (''%'' @ to_string title @ ''%'')] else []) @
     (if truthy minSalary then [minSalary] else [])"

definition Job_statement :: "string list \<Rightarrow> string" where
  "Job_statement conditions =
     Job_select @ where_and conditions @ ''\<newline>'' @ ''      ORDER BY title''"

text \<open>
  The filters of companies: the text filter on the name, the minimum and the maximum
  number of employees, each present when its value is truthy.
\<close>

definition Company_conditions :: "jsval \<Rightarrow> jsval \<Rightarrow> jsval \<Rightarrow> string list" where
  "Company_conditions name minEmployees maxEmployees =
     (if truthy name then [''name ILIKE $1''] else []) @
     (if truthy minEmployees then
        [''num_employees >= $'' @ string_of_nat (if truthy name then 2 else 1)]
      else []) @
     (if truthy maxEmployees then
        [''num_employees <= $'' @
           string_of_nat ((if truthy name then 1 else 0) +
                          (if truthy minEmployees then 1 else 0) + 1)]
      else [])"

definition Company_binds :: "jsval \<Rightarrow> jsval \<Rightarrow> jsval \<Rightarrow> jsval list" where
  "Company_binds name minEmployees maxEmployees =
     (if truthy name then [JStr (''%'' @ to_string name @ ''%'')] else []) @
     (if truthy minEmployees then [minEmployees] else []) @
     (if truthy maxEmployees then [maxEmployees] else [])"

definition Company_statement :: "string list \<Rightarrow> string" where
  "Company_statement conditions =
     Company_select @ where_and conditions @ ''\<newline>'' @ ''      ORDER BY name''"

section \<open>Executors for the examples\<close>

text \<open>
  Two small executors on which the theorems are instantiated, and \<open>no_number\<close>, which
  stands in for the conversion of strings to numbers where no string is converted.
  \<open>no_rows\<close> is a database without data: every statement returns no row.
  \<open>companies_exec\<close> holds the rows of the
  companies table, each row the list of its column values with the handle first; it
  answers the two statements of \<open>Company.create\<close> (the rows \<open>[handle]\<close> with the given
  handle; the inserted row, which it appends) and returns no row for any other
  statement.
\<close>

definition no_number :: "string \<Rightarrow> number option" where
  "no_number s = None"

definition no_rows :: "(unit, jsval list) executor" where
  "no_rows sql vals s = ([], s)"

definition companies_exec :: "(jsval list list, jsval list) executor" where
  "companies_exec sql vals s =
     (if sql = Company_insert_sql then ([vals], s @ [vals])
      else if sql = Company_duplicateCheck_sql then
        (map (take 1) (filter (\<lambda>r. take 1 r = vals) s), s)
      else ([], s))"

section \<open>Properties of sqlForPartialUpdate\<close>

text \<open>
  The enumeration keeps every property, and keeps the order of creation when no key
  is an array index, as with column names.
\<close>

lemma length_index_entries:
  "length (List.map_filter (\<lambda>e. map_option (\<lambda>n. (n, e)) (array_index (fst e))) obj) =
     length (filter (\<lambda>e. array_index (fst e) \<noteq> None) obj)"
  by (induction obj) (auto split: option.splits)

lemma length_Object_entries: "length (Object_entries obj) = length obj"
proof -
  have "length (filter (\<lambda>e. array_index (fst e) \<noteq> None) obj) +
        length (filter (\<lambda>e. \<not> array_index (fst e) \<noteq> None) obj) = length obj"
    by (rule sum_length_filter_compl)
  then show ?thesis
    by (simp add: Object_entries_def length_index_entries)
qed

lemma Object_entries_eq_Nil: "(Object_entries obj = []) = (obj = [])"
  using length_Object_entries [of obj] by (metis length_0_conv)

lemma index_entries_none:
  "list_all (\<lambda>e. array_index (fst e) = None) obj \<Longrightarrow>
     List.map_filter (\<lambda>e. map_option (\<lambda>n. (n, e)) (array_index (fst e))) obj = []"
  by (induction obj) simp_all

lemma Object_entries_creation_order:
  "list_all (\<lambda>e. array_index (fst e) = None) obj \<Longrightarrow> Object_entries obj = obj"
  by (simp add: Object_entries_def index_entries_none list_all_iff)

lemma set_index_entries:
  "snd ` set (List.map_filter (\<lambda>e. map_option (\<lambda>n. (n, e)) (array_index (fst e))) obj) =
     {e \<in> set obj. array_index (fst e) \<noteq> None}"
  by (induction obj) (auto split: option.splits)

lemma set_Object_entries: "set (Object_entries obj) = set obj"
  by (auto simp add: Object_entries_def set_index_entries)

text \<open>
  Claim C2. Whatever the translation table, an empty update mapping makes
  \<open>sqlForPartialUpdate\<close> throw a \<open>BadRequestError\<close> (with the message "No data"); it
  returns no clause and value list.
\<close>

theorem sqlForPartialUpdate_empty:
  "sqlForPartialUpdate [] jsToSql = Inl (BadRequestError ''No data'')"
  by (simp add: sqlForPartialUpdate_def Object_entries_def)

text \<open>
  The result in general: the clauses of the enumerated properties, each column named
  by what the code's expression \<open>jsToSql[colName] || colName\<close> prints.
\<close>

lemma map_enumerate_keys:
  "map (\<lambda>(idx, colName). f idx colName) (enumerate 0 (map fst d)) =
   map (\<lambda>i. f i (fst (d ! i))) [0..<length d]"
  by (rule nth_equalityI) (simp_all add: nth_enumerate_eq)

lemma sqlForPartialUpdate_eq:
  "sqlForPartialUpdate d jsToSql =
     (if d = [] then Inl (BadRequestError ''No data'')
      else Inr \<lparr> setCols = join '', ''
                   (set_clauses (\<lambda>k. to_string (js_or (get_prop jsToSql k) (JStr k)))
                      (Object_entries d)),
                 values = map snd (Object_entries d) \<rparr>)"
  unfolding sqlForPartialUpdate_def Let_def set_clauses_def set_clause_def
  by (simp add: map_enumerate_keys Object_entries_eq_Nil)

lemma set_clauses_cong:
  assumes "\<And>k. k \<in> fst ` set d \<Longrightarrow> f k = g k"
  shows "set_clauses f d = set_clauses g d"
  unfolding set_clauses_def
  by (rule map_cong [OF refl]) (simp add: assms)

text \<open>The facts that evaluate the function on a given mapping of column names.\<close>

lemmas sqlForPartialUpdate_eval =
  sqlForPartialUpdate_eq Object_entries_creation_order array_index_def is_digit_def
  set_clauses_def set_clause_def get_prop_def js_or_def Object_prototype_def
  string_of_nat.simps

text \<open>
  Where the table has an own entry for the key, or the key is no inherited name, the
  expression prints the own entry if it is truthy and the key otherwise.
\<close>

lemma js_or_column_name:
  "jsToSql key \<noteq> None \<or> Object_prototype key = None \<Longrightarrow>
     to_string (js_or (get_prop jsToSql key) (JStr key)) = column_name jsToSql key"
  by (auto simp add: js_or_def get_prop_def column_name_def split: option.splits)

text \<open>On a table whose values are all truthy the two namings of the columns agree.\<close>

lemma column_name_translated:
  "(\<And>v. jsToSql key = Some v \<Longrightarrow> truthy v) \<Longrightarrow>
     column_name jsToSql key = translated jsToSql key"
  by (simp add: column_name_def translated_def split: option.splits)

text \<open>
  Claim C1, as amended. Take a non-empty update mapping and a translation table such
  that no key of the mapping that the table lacks is the name of an inherited
  property. Then \<open>sqlForPartialUpdate\<close> returns as \<open>setCols\<close> the clauses \<open>"col"=$i\<close>
  joined by a comma and a space, one per key in the order in which \<open>Object.keys\<close>
  enumerates the mapping, \<open>i\<close> the 1-based position of the key in that order and \<open>col\<close>
  the table's value for the key when there is one and it is truthy, the key itself
  otherwise; \<open>values\<close> are the mapping's values in the same order. The returned values
  are as many as the clauses, and the clause at the position of the \<open>i\<close>-th value is
  the one of its key, with \<open>$i\<close>. The order of enumeration is the order of insertion
  when no key is an array index.
\<close>

theorem sqlForPartialUpdate_clauses:
  assumes "dataToUpdate \<noteq> []"
    and "\<And>k. k \<in> fst ` set dataToUpdate \<Longrightarrow> jsToSql k = None \<Longrightarrow> Object_prototype k = None"
  shows
    "sqlForPartialUpdate dataToUpdate jsToSql =
       Inr \<lparr> setCols = join '', ''
                (set_clauses (column_name jsToSql) (Object_entries dataToUpdate)),
              values = map snd (Object_entries dataToUpdate) \<rparr>
     \<and> (\<forall>r. sqlForPartialUpdate dataToUpdate jsToSql = Inr r \<longrightarrow>
          length (values r) =
            length (set_clauses (column_name jsToSql) (Object_entries dataToUpdate)) \<and>
          (\<forall>i < length (values r).
             values r ! i = snd (Object_entries dataToUpdate ! i) \<and>
             set_clauses (column_name jsToSql) (Object_entries dataToUpdate) ! i =
               set_clause (column_name jsToSql (fst (Object_entries dataToUpdate ! i)))
                 (i + 1)))
     \<and> (list_all (\<lambda>e. array_index (fst e) = None) dataToUpdate \<longrightarrow>
          Object_entries dataToUpdate = dataToUpdate)"
proof -
  have "set_clauses (\<lambda>k. to_string (js_or (get_prop jsToSql k) (JStr k)))
          (Object_entries dataToUpdate) =
        set_clauses (column_name jsToSql) (Object_entries dataToUpdate)"
  proof (rule set_clauses_cong)
    fix k
    assume "k \<in> fst ` set (Object_entries dataToUpdate)"
    then have mem: "k \<in> fst ` set dataToUpdate"
      by (simp only: set_Object_entries)
    have "jsToSql k = None \<Longrightarrow> Object_prototype k = None"
      by (rule assms(2) [OF mem])
    then have "jsToSql k \<noteq> None \<or> Object_prototype k = None"
      by (cases "jsToSql k") simp_all
    then show "to_string (js_or (get_prop jsToSql k) (JStr k)) = column_name jsToSql k"
      by (rule js_or_column_name)
  qed
  then have result:
    "sqlForPartialUpdate dataToUpdate jsToSql =
       Inr \<lparr> setCols = join '', ''
                (set_clauses (column_name jsToSql) (Object_entries dataToUpdate)),
              values = map snd (Object_entries dataToUpdate) \<rparr>"
    using assms(1) by (simp add: sqlForPartialUpdate_eq)
  have positions:
    "length (map snd (Object_entries dataToUpdate)) =
       length (set_clauses (column_name jsToSql) (Object_entries dataToUpdate)) \<and>
     (\<forall>i < length (map snd (Object_entries dataToUpdate)).
        map snd (Object_entries dataToUpdate) ! i = snd (Object_entries dataToUpdate ! i) \<and>
        set_clauses (column_name jsToSql) (Object_entries dataToUpdate) ! i =
          set_clause (column_name jsToSql (fst (Object_entries dataToUpdate ! i))) (i + 1))"
    by (simp add: set_clauses_def)
  have order:
    "list_all (\<lambda>e. array_index (fst e) = None) dataToUpdate \<longrightarrow>
       Object_entries dataToUpdate = dataToUpdate"
    by (simp add: Object_entries_creation_order)
  have placed:
    "\<forall>r. sqlForPartialUpdate dataToUpdate jsToSql = Inr r \<longrightarrow>
       length (values r) =
         length (set_clauses (column_name jsToSql) (Object_entries dataToUpdate)) \<and>
       (\<forall>i < length (values r).
          values r ! i = snd (Object_entries dataToUpdate ! i) \<and>
          set_clauses (column_name jsToSql) (Object_entries dataToUpdate) ! i =
            set_clause (column_name jsToSql (fst (Object_entries dataToUpdate ! i)))
              (i + 1))"
  proof (intro allI impI)
    fix r
    assume "sqlForPartialUpdate dataToUpdate jsToSql = Inr r"
    with result have vals: "values r = map snd (Object_entries dataToUpdate)"
      by (metis partial_update.select_convs(2) sum.inject(2))
    show
      "length (values r) =
         length (set_clauses (column_name jsToSql) (Object_entries dataToUpdate)) \<and>
       (\<forall>i < length (values r).
          values r ! i = snd (Object_entries dataToUpdate ! i) \<and>
          set_clauses (column_name jsToSql) (Object_entries dataToUpdate) ! i =
            set_clause (column_name jsToSql (fst (Object_entries dataToUpdate ! i)))
              (i + 1))"
      unfolding vals by (rule positions)
  qed
  show ?thesis
    by (intro conjI) (rule result, rule placed, rule order)
qed

text \<open>The example of the function's doc comment.\<close>

theorem sqlForPartialUpdate_clauses_witness:
  "[(''firstName'', JStr ''Aliya''), (''age'', JNum 32)] \<noteq> [] \<and>
   Object_prototype ''firstName'' = None \<and> Object_prototype ''age'' = None \<and>
   sqlForPartialUpdate [(''firstName'', JStr ''Aliya''), (''age'', JNum 32)]
       (map_of [(''firstName'', JStr ''first_name'')])
     = Inr \<lparr> setCols = ''\"first_name\"=$1, \"age\"=$2'',
              values = [JStr ''Aliya'', JNum 32] \<rparr>"
proof -
  have names: "Object_prototype ''firstName'' = None" "Object_prototype ''age'' = None"
    by (simp_all add: Object_prototype_def)
  have inherited:
    "\<And>k. k \<in> fst ` set [(''firstName'', JStr ''Aliya''), (''age'', JNum 32)] \<Longrightarrow>
       map_of [(''firstName'', JStr ''first_name'')] k = None \<Longrightarrow> Object_prototype k = None"
    using names by auto
  have order: "Object_entries [(''firstName'', JStr ''Aliya''), (''age'', JNum 32)] =
      [(''firstName'', JStr ''Aliya''), (''age'', JNum 32)]"
    by (simp add: Object_entries_creation_order array_index_def is_digit_def)
  show ?thesis
    using names sqlForPartialUpdate_clauses
      [of "[(''firstName'', JStr ''Aliya''), (''age'', JNum 32)]"
          "map_of [(''firstName'', JStr ''first_name'')]", OF _ inherited]
    by (simp add: order set_clauses_def set_clause_def column_name_def string_of_nat.simps
          upt_conv_Cons)
qed

text \<open>
  With the column named as the specification words it (the table's value whenever the
  table has the key), the statement fails: for \<open>{a: 1}\<close> and the table \<open>{a: ""}\<close> the
  code returns \<open>"a"=$1\<close>, not \<open>""=$1\<close>.
\<close>

theorem sqlForPartialUpdate_translated_counterexample:
  "sqlForPartialUpdate [(''a'', JNum 1)] (map_of [(''a'', JStr '''')]) \<noteq>
     Inr \<lparr> setCols = join '', ''
                (set_clauses (translated (map_of [(''a'', JStr '''')])) [(''a'', JNum 1)]),
            values = map snd [(''a'', JNum 1)] \<rparr>"
  by (simp add: sqlForPartialUpdate_eq Object_entries_creation_order array_index_def
        is_digit_def set_clauses_def set_clause_def get_prop_def js_or_def translated_def)

text \<open>
  The order of the keys is not always that of insertion: for \<open>{b: 1, 0: 2}\<close> the key
  \<open>0\<close> comes first, with its value.
\<close>

lemma sqlForPartialUpdate_index_keys_first:
  "sqlForPartialUpdate [(''b'', JNum 1), (''0'', JNum 2)] (map_of []) =
     Inr \<lparr> setCols = ''\"0\"=$1, \"b\"=$2'', values = [JNum 2, JNum 1] \<rparr>"
  by (simp add: sqlForPartialUpdate_eq Object_entries_def
        array_index_def is_digit_def digit_val_def set_clauses_def set_clause_def
        get_prop_def js_or_def Object_prototype_def string_of_nat.simps upt_conv_Cons)

text \<open>
  A key that the table lacks and that names an inherited property is not kept: the
  read finds the inherited function, which is truthy, and the column is its text.
  For \<open>{constructor: "x"}\<close> and the empty table:
\<close>

lemma sqlForPartialUpdate_inherited_name:
  "sqlForPartialUpdate [(''constructor'', JStr ''x'')] (map_of []) =
     Inr \<lparr> setCols = ''\"function Object() { [native code] }\"=$1'',
            values = [JStr ''x''] \<rparr>"
  by (simp add: sqlForPartialUpdate_eq Object_entries_creation_order array_index_def
        is_digit_def set_clauses_def set_clause_def get_prop_def js_or_def
        Object_prototype_def string_of_nat.simps)




section \<open>Properties of findByCriteria\<close>

text \<open>
  What the two methods build, in the terms of the specification: the statement of the
  conditions of the present filters, and the bind values of the present filters.
\<close>

lemma Job_findByCriteria_build_eq:
  "Job_findByCriteria_build title minSalary hasEquity =
     (Job_statement (Job_conditions title minSalary hasEquity), Job_binds title minSalary)"
  by (simp add: Job_findByCriteria_build_def Job_statement_def Job_conditions_def
        Job_text_conditions_def Job_equity_conditions_def Job_binds_def js_or_def
        string_of_nat.simps)

lemma Company_findByCriteria_build_eq:
  "Company_findByCriteria_build name minEmployees maxEmployees =
     (Company_statement (Company_conditions name minEmployees maxEmployees),
      Company_binds name minEmployees maxEmployees)"
  by (simp add: Company_findByCriteria_build_def Company_statement_def
        Company_conditions_def Company_binds_def js_or_def string_of_nat.simps)

lemma placeholders_Job_select:
  "placeholders_from Text (Job_select @ s) = placeholders_from Text s"
  by (simp add: Job_select_def)

lemma placeholders_Company_select:
  "placeholders_from Text (Company_select @ s) = placeholders_from Text s"
  by (simp add: Company_select_def)

lemma placeholders_Job_statement:
  "placeholders (Job_statement (Job_conditions title minSalary hasEquity)) =
     [1..<Suc (length (Job_binds title minSalary))]"
  by (simp add: placeholders_def Job_statement_def placeholders_Job_select
        Job_conditions_def Job_text_conditions_def Job_equity_conditions_def Job_binds_def
        is_digit_def digit_val_def string_of_nat.simps upt_conv_Cons)

lemma placeholders_Company_statement:
  "placeholders (Company_statement (Company_conditions name minEmployees maxEmployees)) =
     [1..<Suc (length (Company_binds name minEmployees maxEmployees))]"
  by (simp add: placeholders_def Company_statement_def placeholders_Company_select
        Company_conditions_def Company_binds_def
        is_digit_def digit_val_def string_of_nat.simps upt_conv_Cons)

text \<open>
  \<open>Job.findByCriteria\<close> sends what it has built and returns the rows; so does
  \<open>Company.findByCriteria\<close> unless its validation throws.
\<close>

lemma Job_findByCriteria_sends:
  "Job_findByCriteria exec title minSalary hasEquity d =
     (let (query, values) = Job_findByCriteria_build title minSalary hasEquity
      in (Inr (fst (exec query values (store d))),
          \<lparr> store = snd (exec query values (store d)),
            sent = sent d @ [(query, values)] \<rparr>))"
  by (simp add: Job_findByCriteria_def db_query_def split: prod.splits)

lemma Company_findByCriteria_sends:
  "\<not> (truthy minEmployees \<and> truthy maxEmployees \<and> js_gt stringToNumber minEmployees maxEmployees) \<Longrightarrow>
   Company_findByCriteria stringToNumber exec name minEmployees maxEmployees d =
     (let (query, values) = Company_findByCriteria_build name minEmployees maxEmployees
      in (Inr (fst (exec query values (store d))),
          \<lparr> store = snd (exec query values (store d)),
            sent = sent d @ [(query, values)] \<rparr>))"
  by (simp add: Company_findByCriteria_def db_query_def split: prod.splits)

text \<open>
  Claim C3. In the statement that \<open>Job.findByCriteria\<close> builds, and in the one that
  \<open>Company.findByCriteria\<close> builds, the placeholders are \<open>$1\<close>, \<open>$2\<close>, ... in this
  order, one for each bind value: each filter that binds a value takes the number of
  values bound before it plus one. The bind values are the title or name pattern and
  the numeric bounds that are present, in that order. The equity flag binds nothing:
  whatever its value, the placeholders and the bind values are those of the statement
  without it.
\<close>

theorem findByCriteria_placeholders:
  "placeholders (fst (Job_findByCriteria_build title minSalary hasEquity)) =
     [1..<Suc (length (snd (Job_findByCriteria_build title minSalary hasEquity)))]
   \<and> snd (Job_findByCriteria_build title minSalary hasEquity) = Job_binds title minSalary
   \<and> placeholders (fst (Job_findByCriteria_build title minSalary hasEquity)) =
       placeholders (fst (Job_findByCriteria_build title minSalary JUndefined))
   \<and> snd (Job_findByCriteria_build title minSalary hasEquity) =
       snd (Job_findByCriteria_build title minSalary JUndefined)
   \<and> placeholders (fst (Company_findByCriteria_build name minEmployees maxEmployees)) =
       [1..<Suc (length (snd (Company_findByCriteria_build name minEmployees maxEmployees)))]
   \<and> snd (Company_findByCriteria_build name minEmployees maxEmployees) =
       Company_binds name minEmployees maxEmployees"
  by (simp only: Job_findByCriteria_build_eq Company_findByCriteria_build_eq fst_conv
        snd_conv placeholders_Job_statement placeholders_Company_statement simp_thms)

text \<open>
  Claim C4. Both statements are the selection, then the conditions of the filters that
  are present, in the declared order (text filter, minimum, then maximum or equity
  flag), the first of them after \<open>WHERE\<close> and every later one after \<open>AND\<close>, then the
  ordering.
\<close>

theorem findByCriteria_where_and:
  "fst (Job_findByCriteria_build title minSalary hasEquity) =
     Job_select @ where_and (Job_conditions title minSalary hasEquity)
       @ ''\<newline>'' @ ''      ORDER BY title''
   \<and> fst (Company_findByCriteria_build name minEmployees maxEmployees) =
     Company_select @ where_and (Company_conditions name minEmployees maxEmployees)
       @ ''\<newline>'' @ ''      ORDER BY name''"
  by (simp only: Job_findByCriteria_build_eq Company_findByCriteria_build_eq fst_conv
        Job_statement_def Company_statement_def simp_thms)

lemma js_gt_numbers: "js_gt stringToNumber (JNum a) (JNum b) = (b < a)"
  by (simp add: js_gt_def)

lemma js_gt_strings: "js_gt stringToNumber (JStr a) (JStr b) = str_lt b a"
  by (simp add: js_gt_def)

text \<open>
  The validation of \<open>Company.findByCriteria\<close>: when its condition holds the method
  throws and the connection is as it was. On two non-zero numbers the condition is
  that the first is the greater.
\<close>

lemma Company_findByCriteria_guard:
  "truthy minEmployees \<Longrightarrow> truthy maxEmployees \<Longrightarrow>
   js_gt stringToNumber minEmployees maxEmployees \<Longrightarrow>
     Company_findByCriteria stringToNumber exec name minEmployees maxEmployees d =
       (Inl (BadRequestError ''minEmployees cannot be greater than maxEmployees''), d)"
  by (simp add: Company_findByCriteria_def)

lemma Company_findByCriteria_numbers:
  "a \<noteq> 0 \<Longrightarrow> b \<noteq> 0 \<Longrightarrow> b < a \<Longrightarrow>
     Company_findByCriteria stringToNumber exec name (JNum a) (JNum b) d =
       (Inl (BadRequestError ''minEmployees cannot be greater than maxEmployees''), d)"
  by (simp add: Company_findByCriteria_guard js_gt_numbers)

text \<open>
  Claim C5 says that \<open>Company.findByCriteria\<close> throws a \<open>BadRequestError\<close>, before any
  statement is built or sent, whenever both bounds are provided and \<open>minEmployees\<close>
  exceeds \<open>maxEmployees\<close>. For bounds that are strings, as a query string delivers
  them, the code does otherwise: \<open>"10" > "9"\<close> compares the strings and is false, so
  for \<open>minEmployees = "10"\<close> and \<open>maxEmployees = "9"\<close> nothing is thrown, and the
  statement with both conditions is sent with the two strings bound.
\<close>

theorem Company_findByCriteria_string_bounds:
  "\<not> js_gt stringToNumber (JStr ''10'') (JStr ''9'')
   \<and> Company_findByCriteria stringToNumber exec JUndefined (JStr ''10'') (JStr ''9'') d =
       (Inr (fst (exec
                (Company_select @
                   ''\<newline>'' @ ''        WHERE num_employees >= $1'' @
                   ''\<newline>'' @ ''        AND num_employees <= $2'' @
                   ''\<newline>'' @ ''      ORDER BY name'')
                [JStr ''10'', JStr ''9''] (store d))),
        \<lparr> store =
            snd (exec
                (Company_select @
                   ''\<newline>'' @ ''        WHERE num_employees >= $1'' @
                   ''\<newline>'' @ ''        AND num_employees <= $2'' @
                   ''\<newline>'' @ ''      ORDER BY name'')
                [JStr ''10'', JStr ''9''] (store d)),
          sent = sent d @
            [(Company_select @
                ''\<newline>'' @ ''        WHERE num_employees >= $1'' @
                ''\<newline>'' @ ''        AND num_employees <= $2'' @
                ''\<newline>'' @ ''      ORDER BY name'',
              [JStr ''10'', JStr ''9''])] \<rparr>)"
proof -
  have guard: "\<not> js_gt stringToNumber (JStr ''10'') (JStr ''9'')"
    by (simp add: js_gt_strings)
  have build:
    "Company_findByCriteria_build JUndefined (JStr ''10'') (JStr ''9'') =
       (Company_select @
          ''\<newline>'' @ ''        WHERE num_employees >= $1'' @
          ''\<newline>'' @ ''        AND num_employees <= $2'' @
          ''\<newline>'' @ ''      ORDER BY name'',
        [JStr ''10'', JStr ''9''])"
    by (simp add: Company_findByCriteria_build_def js_or_def string_of_nat.simps)
  show ?thesis
    using guard by (simp add: Company_findByCriteria_def build db_query_def split: prod.splits)
qed

lemma Job_conditions_falsy_title:
  "\<not> truthy title \<Longrightarrow>
     Job_conditions title minSalary hasEquity = Job_conditions JUndefined minSalary hasEquity
     \<and> Job_binds title minSalary = Job_binds JUndefined minSalary"
  by (simp add: Job_conditions_def Job_text_conditions_def Job_binds_def)

lemma Job_conditions_falsy_minSalary:
  "\<not> truthy minSalary \<Longrightarrow>
     Job_conditions title minSalary hasEquity = Job_conditions title JUndefined hasEquity
     \<and> Job_binds title minSalary = Job_binds title JUndefined"
  by (simp add: Job_conditions_def Job_text_conditions_def Job_binds_def)

lemma Company_findByCriteria_falsy_name:
  "\<not> truthy name \<Longrightarrow>
     Company_findByCriteria stringToNumber exec name minEmployees maxEmployees d =
     Company_findByCriteria stringToNumber exec JUndefined minEmployees maxEmployees d"
  by (simp add: Company_findByCriteria_def Company_findByCriteria_build_eq
        Company_conditions_def Company_binds_def)

lemma Company_findByCriteria_falsy_minEmployees:
  "\<not> truthy minEmployees \<Longrightarrow>
     Company_findByCriteria stringToNumber exec name minEmployees maxEmployees d =
     Company_findByCriteria stringToNumber exec name JUndefined maxEmployees d"
  by (simp add: Company_findByCriteria_def Company_findByCriteria_build_eq
        Company_conditions_def Company_binds_def)

lemma Company_findByCriteria_falsy_maxEmployees:
  "\<not> truthy maxEmployees \<Longrightarrow>
     Company_findByCriteria stringToNumber exec name minEmployees maxEmployees d =
     Company_findByCriteria stringToNumber exec name minEmployees JUndefined d"
  by (simp add: Company_findByCriteria_def Company_findByCriteria_build_eq
        Company_conditions_def Company_binds_def)

lemma where_and_snoc:
  "where_and (cs @ [c]) =
     where_and cs @ ''\<newline>'' @ ''        '' @ (if cs = [] then ''WHERE '' else ''AND '') @ c"
  by (cases cs) simp_all

lemma Job_statement_equity_distinct:
  "Job_statement (cs @ [''equity > 0'']) \<noteq> Job_statement cs
   \<and> Job_statement (cs @ [''equity = 0'']) \<noteq> Job_statement cs
   \<and> Job_statement (cs @ [''equity > 0'']) \<noteq> Job_statement (cs @ [''equity = 0''])"
  by (simp add: Job_statement_def where_and_snoc)

text \<open>
  Claim C6. A falsy title, minimum salary, name, minimum or maximum number of
  employees is the same as one left out: the method sends the same statement with the
  same bind values and returns the same. The equity flag has three states: \<open>true\<close> or
  \<open>"true"\<close> adds the condition \<open>equity > 0\<close> after the other conditions, \<open>false\<close> or
  \<open>"false"\<close> adds \<open>equity = 0\<close>, a flag left out adds nothing, and the three statements
  differ from one another. With every filter left out the statement has no condition
  and no bind value.
\<close>

theorem findByCriteria_falsy_not_provided:
  "(\<not> truthy title \<longrightarrow>
      Job_findByCriteria exec title minSalary hasEquity d =
      Job_findByCriteria exec JUndefined minSalary hasEquity d)
   \<and> (\<not> truthy minSalary \<longrightarrow>
      Job_findByCriteria exec title minSalary hasEquity d =
      Job_findByCriteria exec title JUndefined hasEquity d)
   \<and> (\<not> truthy name \<longrightarrow>
      Company_findByCriteria stringToNumber exec name minEmployees maxEmployees d =
      Company_findByCriteria stringToNumber exec JUndefined minEmployees maxEmployees d)
   \<and> (\<not> truthy minEmployees \<longrightarrow>
      Company_findByCriteria stringToNumber exec name minEmployees maxEmployees d =
      Company_findByCriteria stringToNumber exec name JUndefined maxEmployees d)
   \<and> (\<not> truthy maxEmployees \<longrightarrow>
      Company_findByCriteria stringToNumber exec name minEmployees maxEmployees d =
      Company_findByCriteria stringToNumber exec name minEmployees JUndefined d)
   \<and> (hasEquity = JBool True \<or> hasEquity = JStr ''true'' \<longrightarrow>
      Job_findByCriteria_build title minSalary hasEquity =
        (Job_statement (Job_text_conditions title minSalary @ [''equity > 0'']),
         Job_binds title minSalary))
   \<and> (hasEquity = JBool False \<or> hasEquity = JStr ''false'' \<longrightarrow>
      Job_findByCriteria_build title minSalary hasEquity =
        (Job_statement (Job_text_conditions title minSalary @ [''equity = 0'']),
         Job_binds title minSalary))
   \<and> Job_findByCriteria_build title minSalary JUndefined =
        (Job_statement (Job_text_conditions title minSalary), Job_binds title minSalary)
   \<and> Job_findByCriteria_build JUndefined JUndefined JUndefined = (Job_statement [], [])
   \<and> Company_findByCriteria_build JUndefined JUndefined JUndefined =
        (Company_statement [], [])
   \<and> Job_statement (Job_text_conditions title minSalary @ [''equity > 0'']) \<noteq>
       Job_statement (Job_text_conditions title minSalary)
   \<and> Job_statement (Job_text_conditions title minSalary @ [''equity = 0'']) \<noteq>
       Job_statement (Job_text_conditions title minSalary)
   \<and> Job_statement (Job_text_conditions title minSalary @ [''equity > 0'']) \<noteq>
       Job_statement (Job_text_conditions title minSalary @ [''equity = 0''])"
proof -
  have equity:
    "hasEquity = JBool True \<or> hasEquity = JStr ''true'' \<longrightarrow>
       Job_conditions title minSalary hasEquity =
       Job_text_conditions title minSalary @ [''equity > 0'']"
    "hasEquity = JBool False \<or> hasEquity = JStr ''false'' \<longrightarrow>
       Job_conditions title minSalary hasEquity =
       Job_text_conditions title minSalary @ [''equity = 0'']"
    "Job_conditions title minSalary JUndefined = Job_text_conditions title minSalary"
    by (auto simp add: Job_conditions_def Job_equity_conditions_def)
  have absent:
    "Job_conditions JUndefined JUndefined JUndefined = []"
    "Job_binds JUndefined JUndefined = []"
    "Company_conditions JUndefined JUndefined JUndefined = []"
    "Company_binds JUndefined JUndefined JUndefined = []"
    by (simp_all add: Job_conditions_def Job_text_conditions_def Job_equity_conditions_def
          Job_binds_def Company_conditions_def Company_binds_def)
  show ?thesis
    using equity absent
      Job_statement_equity_distinct [of "Job_text_conditions title minSalary"]
      Job_conditions_falsy_title [of title minSalary hasEquity]
      Job_conditions_falsy_minSalary [of minSalary title hasEquity]
      Company_findByCriteria_falsy_name [of name stringToNumber exec minEmployees maxEmployees d]
      Company_findByCriteria_falsy_minEmployees [of minEmployees stringToNumber exec name maxEmployees d]
      Company_findByCriteria_falsy_maxEmployees [of maxEmployees stringToNumber exec name minEmployees d]
    by (simp add: Job_findByCriteria_def Job_findByCriteria_build_eq
          Company_findByCriteria_build_eq)
qed

text \<open>
  Examples: a title \<open>""\<close> and a minimum salary \<open>0\<close> with the flag \<open>false\<close> give the one
  condition \<open>equity = 0\<close> and no bind value, and \<open>minEmployees = 0\<close> is no lower bound.
\<close>

theorem findByCriteria_falsy_not_provided_witness:
  "\<not> truthy (JStr '''') \<and> \<not> truthy (JNum 0) \<and> \<not> truthy JNull \<and>
   Job_findByCriteria no_rows (JStr '''') (JNum 0) (JBool False) \<lparr> store = (), sent = [] \<rparr> =
     Job_findByCriteria no_rows JUndefined (JNum 0) (JBool False) \<lparr> store = (), sent = [] \<rparr> \<and>
   Job_findByCriteria no_rows (JStr '''') (JNum 0) (JBool False) \<lparr> store = (), sent = [] \<rparr> =
     Job_findByCriteria no_rows (JStr '''') JUndefined (JBool False) \<lparr> store = (), sent = [] \<rparr> \<and>
   Company_findByCriteria no_number no_rows (JStr '''') (JNum 0) JNull \<lparr> store = (), sent = [] \<rparr> =
     Company_findByCriteria no_number no_rows JUndefined (JNum 0) JNull \<lparr> store = (), sent = [] \<rparr> \<and>
   Company_findByCriteria no_number no_rows (JStr '''') (JNum 0) JNull \<lparr> store = (), sent = [] \<rparr> =
     Company_findByCriteria no_number no_rows (JStr '''') JUndefined JNull \<lparr> store = (), sent = [] \<rparr> \<and>
   Company_findByCriteria no_number no_rows (JStr '''') (JNum 0) JNull \<lparr> store = (), sent = [] \<rparr> =
     Company_findByCriteria no_number no_rows (JStr '''') (JNum 0) JUndefined \<lparr> store = (), sent = [] \<rparr> \<and>
   Job_findByCriteria_build (JStr '''') (JNum 0) (JBool False) =
     (Job_select @ ''\<newline>'' @ ''        WHERE equity = 0'' @
        ''\<newline>'' @ ''      ORDER BY title'', [])"
  using findByCriteria_falsy_not_provided
    [where title = "JStr ''''" and minSalary = "JNum 0" and hasEquity = "JBool False"
       and name = "JStr ''''" and minEmployees = "JNum 0" and maxEmployees = JNull
       and exec = no_rows and stringToNumber = no_number
       and d = "\<lparr> store = (), sent = [] \<rparr>"]
  by (simp add: Job_statement_def Job_text_conditions_def Job_binds_def
        Job_findByCriteria_def Company_findByCriteria_def Job_findByCriteria_build_eq
        Company_findByCriteria_build_eq Job_conditions_def Job_equity_conditions_def
        Company_conditions_def Company_binds_def)

text \<open>
  Claim C10. A \<open>hasEquity\<close> that is none of \<open>true\<close>, \<open>"true"\<close>, \<open>false\<close>, \<open>"false"\<close> is
  ignored: \<open>Job.findByCriteria\<close> builds and sends the statement and the bind values of
  a call without the flag, and it returns rows, not an error.
\<close>

theorem Job_findByCriteria_other_hasEquity:
  "hasEquity \<noteq> JBool True \<Longrightarrow> hasEquity \<noteq> JStr ''true'' \<Longrightarrow>
   hasEquity \<noteq> JBool False \<Longrightarrow> hasEquity \<noteq> JStr ''false'' \<Longrightarrow>
     Job_findByCriteria_build title minSalary hasEquity =
       Job_findByCriteria_build title minSalary JUndefined
     \<and> Job_findByCriteria exec title minSalary hasEquity d =
       Job_findByCriteria exec title minSalary JUndefined d
     \<and> (\<exists>rows. fst (Job_findByCriteria exec title minSalary hasEquity d) = Inr rows)"
  by (simp add: Job_findByCriteria_def Job_findByCriteria_build_eq Job_conditions_def
        Job_equity_conditions_def split: prod.splits)

theorem Job_findByCriteria_other_hasEquity_witness:
  "JStr ''yes'' \<noteq> JBool True \<and> JStr ''yes'' \<noteq> JStr ''true'' \<and>
   JStr ''yes'' \<noteq> JBool False \<and> JStr ''yes'' \<noteq> JStr ''false'' \<and>
   Job_findByCriteria_build (JStr ''J'') JUndefined (JStr ''yes'') =
     Job_findByCriteria_build (JStr ''J'') JUndefined JUndefined \<and>
   Job_findByCriteria no_rows (JStr ''J'') JUndefined (JStr ''yes'') \<lparr> store = (), sent = [] \<rparr> =
     Job_findByCriteria no_rows (JStr ''J'') JUndefined JUndefined \<lparr> store = (), sent = [] \<rparr> \<and>
   snd (Job_findByCriteria_build (JStr ''J'') JUndefined (JStr ''yes'')) = [JStr ''%J%'']"
  using Job_findByCriteria_other_hasEquity
    [of "JStr ''yes''" "JStr ''J''" JUndefined no_rows "\<lparr> store = (), sent = [] \<rparr>"]
  by (simp add: Job_findByCriteria_build_eq Job_binds_def)

section \<open>Properties of create, get, update and remove\<close>

lemma db_query_eq:
  "db_query exec sql vals d =
     (fst (exec sql vals (store d)),
      \<lparr> store = snd (exec sql vals (store d)), sent = sent d @ [(sql, vals)] \<rparr>)"
  by (simp add: db_query_def split: prod.splits)

lemma Job_get_no_row:
  "fst (exec Job_get_sql [jobId] (store d)) = [] \<Longrightarrow>
     fst (Job_get exec jobId d) =
       Inl (NotFoundError (''No job with an id of '' @ to_string jobId))"
  by (simp add: Job_get_def db_query_eq first_row_def Let_def)

lemma Job_update_no_row:
  assumes "sqlForPartialUpdate jobData (map_of [(''companyHandle'', JStr ''company_handle'')])
             = Inr u"
    and "fst (exec (Job_update_sql (setCols u) (''$'' @ string_of_nat (length (values u) + 1)))
               (values u @ [jobId]) (store d)) = []"
  shows "fst (Job_update exec jobId jobData d) =
           Inl (NotFoundError (''No job with id: '' @ to_string jobId))"
    and "sent (snd (Job_update exec jobId jobData d)) =
           sent d @ [(Job_update_sql (setCols u) (''$'' @ string_of_nat (length (values u) + 1)),
                      values u @ [jobId])]"
  using assms
  by (simp_all add: Job_update_def db_query_eq first_row_def Let_def)

lemma Job_remove_no_row:
  "fst (exec Job_remove_sql [jobId] (store d)) = [] \<Longrightarrow>
     fst (Job_remove exec jobId d) = Inl (NotFoundError ''No job found'')"
  by (simp add: Job_remove_def db_query_eq first_row_def Let_def)

lemma Company_get_no_row:
  "fst (exec Company_get_sql [handle] (store d)) = [] \<Longrightarrow>
     fst (Company_get exec handle d) =
       Inl (NotFoundError (''No company: '' @ to_string handle))"
  by (simp add: Company_get_def db_query_eq first_row_def Let_def)

lemma Company_update_no_row:
  assumes "sqlForPartialUpdate companyData
             (map_of [(''numEmployees'', JStr ''num_employees''),
                      (''logoUrl'', JStr ''logo_url'')]) = Inr v"
    and "fst (exec (Company_update_sql (setCols v)
                      (''$'' @ string_of_nat (length (values v) + 1)))
               (values v @ [handle]) (store d)) = []"
  shows "fst (Company_update exec handle companyData d) =
           Inl (NotFoundError (''No company: '' @ to_string handle))"
    and "sent (snd (Company_update exec handle companyData d)) =
           sent d @ [(Company_update_sql (setCols v)
                        (''$'' @ string_of_nat (length (values v) + 1)),
                      values v @ [handle])]"
  using assms
  by (simp_all add: Company_update_def db_query_eq first_row_def Let_def)

lemma Company_remove_no_row:
  "fst (exec Company_remove_sql [handle] (store d)) = [] \<Longrightarrow>
     fst (Company_remove exec handle d) =
       Inl (NotFoundError (''No company: '' @ to_string handle))"
  by (simp add: Company_remove_def db_query_eq first_row_def Let_def)

text \<open>
  Claim C7. When the statement of \<open>get\<close>, \<open>update\<close> or \<open>remove\<close> returns no row, the
  method throws a \<open>NotFoundError\<close>, for jobs and for companies. For \<open>update\<close> this is
  the case in which \<open>sqlForPartialUpdate\<close> has returned the clauses: the \<open>UPDATE\<close> with
  them has been sent, the id or handle bound last.
\<close>

theorem not_found_when_no_row:
  "(fst (exec Job_get_sql [jobId] (store d)) = [] \<longrightarrow>
      fst (Job_get exec jobId d) =
        Inl (NotFoundError (''No job with an id of '' @ to_string jobId)))
   \<and> (sqlForPartialUpdate jobData (map_of [(''companyHandle'', JStr ''company_handle'')])
          = Inr u \<and>
        fst (exec (Job_update_sql (setCols u) (''$'' @ string_of_nat (length (values u) + 1)))
               (values u @ [jobId]) (store d)) = [] \<longrightarrow>
      fst (Job_update exec jobId jobData d) =
        Inl (NotFoundError (''No job with id: '' @ to_string jobId)) \<and>
      sent (snd (Job_update exec jobId jobData d)) =
        sent d @ [(Job_update_sql (setCols u) (''$'' @ string_of_nat (length (values u) + 1)),
                   values u @ [jobId])])
   \<and> (fst (exec Job_remove_sql [jobId] (store d)) = [] \<longrightarrow>
      fst (Job_remove exec jobId d) = Inl (NotFoundError ''No job found''))
   \<and> (fst (exec Company_get_sql [handle] (store d)) = [] \<longrightarrow>
      fst (Company_get exec handle d) =
        Inl (NotFoundError (''No company: '' @ to_string handle)))
   \<and> (sqlForPartialUpdate companyData
          (map_of [(''numEmployees'', JStr ''num_employees''), (''logoUrl'', JStr ''logo_url'')])
          = Inr v \<and>
        fst (exec (Company_update_sql (setCols v) (''$'' @ string_of_nat (length (values v) + 1)))
               (values v @ [handle]) (store d)) = [] \<longrightarrow>
      fst (Company_update exec handle companyData d) =
        Inl (NotFoundError (''No company: '' @ to_string handle)) \<and>
      sent (snd (Company_update exec handle companyData d)) =
        sent d @ [(Company_update_sql (setCols v)
                     (''$'' @ string_of_nat (length (values v) + 1)),
                   values v @ [handle])])
   \<and> (fst (exec Company_remove_sql [handle] (store d)) = [] \<longrightarrow>
      fst (Company_remove exec handle d) =
        Inl (NotFoundError (''No company: '' @ to_string handle)))"
  using Job_get_no_row [of exec jobId d] Job_update_no_row [of jobData u exec jobId d]
    Job_remove_no_row [of exec jobId d] Company_get_no_row [of exec handle d]
    Company_update_no_row [of companyData v exec handle d]
    Company_remove_no_row [of exec handle d]
  by blast

text \<open>
  On a database without data: the job \<open>9999999\<close> and the company \<open>"nope"\<close> are not
  found by any of the six methods.
\<close>

theorem not_found_when_no_row_witness:
  "fst (no_rows Job_get_sql [JNum 9999999] ()) = [] \<and>
   fst (Job_get no_rows (JNum 9999999) \<lparr> store = (), sent = [] \<rparr>) =
     Inl (NotFoundError ''No job with an id of 9999999'') \<and>
   sqlForPartialUpdate [(''title'', JStr ''New'')]
       (map_of [(''companyHandle'', JStr ''company_handle'')]) =
     Inr \<lparr> setCols = ''\"title\"=$1'', values = [JStr ''New''] \<rparr> \<and>
   fst (Job_update no_rows (JNum 9999999) [(''title'', JStr ''New'')]
          \<lparr> store = (), sent = [] \<rparr>) =
     Inl (NotFoundError ''No job with id: 9999999'') \<and>
   sent (snd (Job_update no_rows (JNum 9999999) [(''title'', JStr ''New'')]
          \<lparr> store = (), sent = [] \<rparr>)) =
     [(Job_update_sql ''\"title\"=$1'' ''$2'', [JStr ''New'', JNum 9999999])] \<and>
   fst (Job_remove no_rows (JNum 9999999) \<lparr> store = (), sent = [] \<rparr>) =
     Inl (NotFoundError ''No job found'') \<and>
   fst (Company_get no_rows (JStr ''nope'') \<lparr> store = (), sent = [] \<rparr>) =
     Inl (NotFoundError ''No company: nope'') \<and>
   sqlForPartialUpdate [(''name'', JStr ''New'')]
       (map_of [(''numEmployees'', JStr ''num_employees''), (''logoUrl'', JStr ''logo_url'')]) =
     Inr \<lparr> setCols = ''\"name\"=$1'', values = [JStr ''New''] \<rparr> \<and>
   fst (Company_update no_rows (JStr ''nope'') [(''name'', JStr ''New'')]
          \<lparr> store = (), sent = [] \<rparr>) =
     Inl (NotFoundError ''No company: nope'') \<and>
   fst (Company_remove no_rows (JStr ''nope'') \<lparr> store = (), sent = [] \<rparr>) =
     Inl (NotFoundError ''No company: nope'')"
proof -
  have job: "sqlForPartialUpdate [(''title'', JStr ''New'')]
       (map_of [(''companyHandle'', JStr ''company_handle'')]) =
     Inr \<lparr> setCols = ''\"title\"=$1'', values = [JStr ''New''] \<rparr>"
    by (simp add: sqlForPartialUpdate_eval)
  have company: "sqlForPartialUpdate [(''name'', JStr ''New'')]
       (map_of [(''numEmployees'', JStr ''num_employees''), (''logoUrl'', JStr ''logo_url'')]) =
     Inr \<lparr> setCols = ''\"name\"=$1'', values = [JStr ''New''] \<rparr>"
    by (simp add: sqlForPartialUpdate_eval)
  show ?thesis
    using job company
      not_found_when_no_row
        [where exec = no_rows and d = "\<lparr> store = (), sent = [] \<rparr>"
           and jobId = "JNum 9999999" and handle = "JStr ''nope''"
           and jobData = "[(''title'', JStr ''New'')]"
           and u = "\<lparr> setCols = ''\"title\"=$1'', values = [JStr ''New''] \<rparr>"
           and companyData = "[(''name'', JStr ''New'')]"
           and v = "\<lparr> setCols = ''\"name\"=$1'', values = [JStr ''New''] \<rparr>"]
    by (simp add: no_rows_def string_of_nat.simps)
qed

text \<open>
  Claim C8. \<open>Company.create\<close> first sends the duplicate check for the handle. If that
  returns a row, the method throws a \<open>BadRequestError\<close> and has sent nothing else. If
  it returns no row, the method sends the insert with the five values and returns the
  first row of its result, the new company.
\<close>

theorem Company_create_duplicate_check:
  "(fst (exec Company_duplicateCheck_sql [handle] (store d)) \<noteq> [] \<longrightarrow>
      Company_create exec handle name description numEmployees logoUrl d =
        (Inl (BadRequestError (''Duplicate company: '' @ to_string handle)),
         \<lparr> store = snd (exec Company_duplicateCheck_sql [handle] (store d)),
           sent = sent d @ [(Company_duplicateCheck_sql, [handle])] \<rparr>))
   \<and> (fst (exec Company_duplicateCheck_sql [handle] (store d)) = [] \<longrightarrow>
      Company_create exec handle name description numEmployees logoUrl d =
        (Inr (first_row
               (fst (exec Company_insert_sql
                       [handle, name, description, numEmployees, logoUrl]
                       (snd (exec Company_duplicateCheck_sql [handle] (store d)))))),
         \<lparr> store =
             snd (exec Company_insert_sql
                    [handle, name, description, numEmployees, logoUrl]
                    (snd (exec Company_duplicateCheck_sql [handle] (store d)))),
           sent = sent d @
             [(Company_duplicateCheck_sql, [handle]),
              (Company_insert_sql, [handle, name, description, numEmployees, logoUrl])] \<rparr>))"
  by (simp add: Company_create_def db_query_eq first_row_def Let_def split: list.splits)

text \<open>
  With the company \<open>c1\<close> stored, creating \<open>c1\<close> again is refused after the check
  alone; on an empty table the company is inserted and returned.
\<close>

theorem Company_create_duplicate_check_witness:
  "fst (companies_exec Company_duplicateCheck_sql [JStr ''c1'']
          [[JStr ''c1'', JStr ''C1'', JStr ''Desc1'', JNum 1, JStr ''http://c1.img'']]) \<noteq> [] \<and>
   Company_create companies_exec (JStr ''c1'') (JStr ''New'') (JStr ''New Description'')
       (JNum 1) (JStr ''http://new.img'')
       \<lparr> store = [[JStr ''c1'', JStr ''C1'', JStr ''Desc1'', JNum 1, JStr ''http://c1.img'']],
         sent = [] \<rparr> =
     (Inl (BadRequestError ''Duplicate company: c1''),
      \<lparr> store = [[JStr ''c1'', JStr ''C1'', JStr ''Desc1'', JNum 1, JStr ''http://c1.img'']],
        sent = [(Company_duplicateCheck_sql, [JStr ''c1''])] \<rparr>) \<and>
   fst (companies_exec Company_duplicateCheck_sql [JStr ''new''] []) = [] \<and>
   Company_create companies_exec (JStr ''new'') (JStr ''New'') (JStr ''New Description'')
       (JNum 1) (JStr ''http://new.img'') \<lparr> store = [], sent = [] \<rparr> =
     (Inr (Some [JStr ''new'', JStr ''New'', JStr ''New Description'', JNum 1,
                 JStr ''http://new.img'']),
      \<lparr> store = [[JStr ''new'', JStr ''New'', JStr ''New Description'', JNum 1,
                   JStr ''http://new.img'']],
        sent = [(Company_duplicateCheck_sql, [JStr ''new'']),
                (Company_insert_sql,
                 [JStr ''new'', JStr ''New'', JStr ''New Description'', JNum 1,
                  JStr ''http://new.img''])] \<rparr>)"
proof -
  have differ: "Company_duplicateCheck_sql \<noteq> Company_insert_sql"
    by (simp add: Company_duplicateCheck_sql_def Company_insert_sql_def)
  show ?thesis
    using differ
      Company_create_duplicate_check
        [where exec = companies_exec and handle = "JStr ''c1''" and name = "JStr ''New''"
           and description = "JStr ''New Description''" and numEmployees = "JNum 1"
           and logoUrl = "JStr ''http://new.img''"
           and d = "\<lparr> store = [[JStr ''c1'', JStr ''C1'', JStr ''Desc1'', JNum 1,
                                  JStr ''http://c1.img'']], sent = [] \<rparr>"]
      Company_create_duplicate_check
        [where exec = companies_exec and handle = "JStr ''new''" and name = "JStr ''New''"
           and description = "JStr ''New Description''" and numEmployees = "JNum 1"
           and logoUrl = "JStr ''http://new.img''" and d = "\<lparr> store = [], sent = [] \<rparr>"]
    by (simp add: companies_exec_def first_row_def)
qed

end
